theory Spec2Isabelle
  imports
    Complex_Main
    "HOL-Library.Product_Lexorder"
    "HOL-Library.List_Lexorder"
    "HOL-Library.Char_ord"
begin

section \<open>Calendar dates\<close>

text \<open>
  The dashboard script \<^verbatim>\<open>app.py\<close> handles calendar dates in three places: the T-SQL
  expression that decodes a minute offset, the comparison of arrival dates against the
  selected range, and the subtraction of arrival from departure. A date is a triple
  (year, month, day); the lexicographic order on triples is the chronological order,
  as for the \<^verbatim>\<open>DATE\<close> values of the query and for Python's \<^verbatim>\<open>datetime.date\<close>.
  Day numbers follow the proleptic Gregorian calendar, with day 1 = 0001-01-01.
\<close>

type_synonym date = "int \<times> nat \<times> nat"

definition is_leap :: "int \<Rightarrow> bool" where
  "is_leap y = (y mod 4 = 0 \<and> (y mod 100 \<noteq> 0 \<or> y mod 400 = 0))"

definition days_in_months :: "bool \<Rightarrow> nat list" where
  "days_in_months leap =
     [31, if leap then 29 else 28, 31, 30, 31, 30, 31, 31, 30, 31, 30, 31]"

definition days_before_year :: "int \<Rightarrow> int" where
  "days_before_year y = (y - 1) * 365 + (y - 1) div 4 - (y - 1) div 100 + (y - 1) div 400"

definition days_before_month :: "int \<Rightarrow> nat \<Rightarrow> nat" where
  "days_before_month y m = sum_list (take (m - 1) (days_in_months (is_leap y)))"

fun ymd2ord :: "date \<Rightarrow> int" where
  "ymd2ord (y, m, d) = days_before_year y + int (days_before_month y m) + int d"

text \<open>
  \<open>month_walk ls m n\<close> finds the month and day of the \<open>n\<close>-th day (from 0) of a year
  by walking the month lengths \<open>ls\<close>, starting at month \<open>m\<close>; the month after the last
  entry of \<open>ls\<close> takes whatever remains.
\<close>

fun month_walk :: "nat list \<Rightarrow> nat \<Rightarrow> nat \<Rightarrow> nat \<times> nat" where
  "month_walk [] m n = (m, Suc n)"
| "month_walk (l # ls) m n =
     (if n < l then (m, Suc n) else month_walk ls (Suc m) (n - l))"

definition ord2ymd :: "int \<Rightarrow> date" where
  "ord2ymd n =
     (let n0 = n - 1;
          n400 = n0 div 146097; r400 = n0 mod 146097;
          n100 = r400 div 36524; r100 = r400 mod 36524;
          n4 = r100 div 1461; r4 = r100 mod 1461;
          n1 = r4 div 365; r1 = r4 mod 365;
          year = n400 * 400 + 1 + n100 * 100 + n4 * 4 + n1
      in if n1 = 4 \<or> n100 = 4 then (year - 1, 12, 31)
         else let leap = (n1 = 3 \<and> (n4 \<noteq> 24 \<or> n100 = 3));
                  (m, d) = month_walk (butlast (days_in_months leap)) 1 (nat r1)
              in (year, m, d))"

section \<open>The extraction query\<close>

subsection \<open>Minute offsets: \<^verbatim>\<open>CAST(DATEADD(minute, m, '1897-01-01') AS DATE)\<close>\<close>

text \<open>
  The query is T-SQL (bracketed three-part table names, \<^verbatim>\<open>DATEADD\<close>). The string
  literal \<^verbatim>\<open>'1897-01-01'\<close> given to \<^verbatim>\<open>DATEADD\<close> is a \<^verbatim>\<open>datetime\<close>, and so is the result.
  A \<^verbatim>\<open>datetime\<close> is a day count from 1900-01-01 and a time of day; only whole minutes
  occur here, so the time of day is kept in minutes. Its range is 1753-01-01 to
  9999-12-31: \<^verbatim>\<open>DATEADD\<close> raises an error (``Adding a value to a 'datetime' column
  caused an overflow'') when the result leaves it.
\<close>

datatype sql_error = DatetimeOverflow

record datetime =
  dt_days :: int
  dt_minutes :: int

definition datetime_of_date :: "date \<Rightarrow> datetime" where
  "datetime_of_date d = \<lparr>dt_days = ymd2ord d - ymd2ord (1900, 1, 1), dt_minutes = 0\<rparr>"

definition CAST_DATE :: "datetime \<Rightarrow> date" where
  "CAST_DATE dt = ord2ymd (dt_days dt + ymd2ord (1900, 1, 1))"

definition datetime_in_range :: "datetime \<Rightarrow> bool" where
  "datetime_in_range dt = (1753 \<le> fst (CAST_DATE dt) \<and> fst (CAST_DATE dt) \<le> 9999)"

definition DATEADD_minute :: "int \<Rightarrow> datetime \<Rightarrow> sql_error + datetime" where
  "DATEADD_minute n dt =
     (let t = dt_minutes dt + n;
          dt' = \<lparr>dt_days = dt_days dt + t div 1440, dt_minutes = t mod 1440\<rparr>
      in if datetime_in_range dt' then Inr dt' else Inl DatetimeOverflow)"

definition decode_minute :: "int \<Rightarrow> sql_error + date" where
  "decode_minute m =
     (case DATEADD_minute m (datetime_of_date (1897, 1, 1)) of
        Inl e \<Rightarrow> Inl e
      | Inr dt \<Rightarrow> Inr (CAST_DATE dt))"

text \<open>
  The decoding in the words of the specification: add \<open>m\<close> minutes to the epoch
  1897-01-01T00:00 on the minute timeline (minute 0 = 0001-01-01T00:00) and truncate
  the instant to its calendar date.
\<close>

definition spec_epoch_minute :: int where
  "spec_epoch_minute = (ymd2ord (1897, 1, 1) - 1) * 1440"

definition spec_date_of_minute :: "int \<Rightarrow> date" where
  "spec_date_of_minute t = ord2ymd (t div 1440 + 1)"

definition spec_decode :: "int \<Rightarrow> date" where
  "spec_decode m = spec_date_of_minute (spec_epoch_minute + m)"

subsection \<open>Tables\<close>

text \<open>
  The schema is not part of the repository. Columns the query only reads are kept as
  the specification's data model types them (integer minute offsets and quantities);
  keys, flags and strings are nullable, \<open>None\<close> being \<^verbatim>\<open>NULL\<close>. Both \<^verbatim>\<open>clmain\<close> and
  \<^verbatim>\<open>spdept\<close> have a column \<^verbatim>\<open>record_marked_deleted\<close>; the fields carry the query's
  table alias as a prefix.
\<close>

record bkmain =
  booking_reference :: "string option"
  booking_status :: "string option"
  arrival_minute :: int
  departure_minute :: int
  creation_minute :: int
  adult_category_1_quantity :: int
  adult_category_2_quantity :: int
  child_category_1_quantity :: int
  child_category_2_quantity :: int
  guest_clmain :: "int option"
  id_bkunit :: "int option"

record clmain =
  client_clmain :: "int option"
  client_nationality :: "string option"
  C_record_marked_deleted :: "int option"

record bkunit =
  booking_unit_bkunit :: "int option"
  unit_name :: "string option"
  unit_type_bkunittp :: "int option"

record bkunittp =
  id_bkunittp :: "int option"
  unit_type_description :: "string option"
  location_department_bkunittp :: "int option"

record spdept =
  department_spdept :: "int option"
  department_description :: "string option"
  department_code :: "string option"
  D_record_marked_deleted :: "int option"

record database =
  t_bkmain :: "bkmain list"
  t_clmain :: "clmain list"
  t_bkunit :: "bkunit list"
  t_bkunittp :: "bkunittp list"
  t_spdept :: "spdept list"

subsection \<open>Three-valued conditions and joins\<close>

text \<open>A condition is \<open>Some True\<close>, \<open>Some False\<close> or \<open>None\<close> (\<^verbatim>\<open>UNKNOWN\<close>).\<close>

definition sql_eq :: "'a option \<Rightarrow> 'a option \<Rightarrow> bool option" where
  "sql_eq a b = (case (a, b) of (Some x, Some y) \<Rightarrow> Some (x = y) | _ \<Rightarrow> None)"

definition sql_and :: "bool option \<Rightarrow> bool option \<Rightarrow> bool option" where
  "sql_and p q =
     (if p = Some False \<or> q = Some False then Some False
      else if p = Some True \<and> q = Some True then Some True
      else None)"

definition sql_true :: "bool option \<Rightarrow> bool" where
  "sql_true p = (p = Some True)"

definition inner_join ::
  "('l \<Rightarrow> 'r \<Rightarrow> bool option) \<Rightarrow> 'l list \<Rightarrow> 'r list \<Rightarrow> ('l \<times> 'r) list" where
  "inner_join cond ls rs =
     concat (map (\<lambda>l. map (Pair l) (filter (\<lambda>r. sql_true (cond l r)) rs)) ls)"

definition left_join ::
  "('l \<Rightarrow> 'r \<Rightarrow> bool option) \<Rightarrow> 'l list \<Rightarrow> 'r list \<Rightarrow> ('l \<times> 'r option) list" where
  "left_join cond ls rs =
     concat (map (\<lambda>l. case filter (\<lambda>r. sql_true (cond l r)) rs of
                         [] \<Rightarrow> [(l, None)]
                       | ms \<Rightarrow> map (\<lambda>r. (l, Some r)) ms) ls)"

text \<open>A row of the \<^verbatim>\<open>FROM\<close> clause, under the query's aliases.\<close>

record joined =
  j_B :: bkmain
  j_C :: clmain
  j_BU :: "bkunit option"
  j_BUT :: "bkunittp option"
  j_D :: "spdept option"

definition from_clause :: "database \<Rightarrow> joined list" where
  "from_clause db =
     map (\<lambda>((((b, c), bu), but), d).
            \<lparr>j_B = b, j_C = c, j_BU = bu, j_BUT = but, j_D = d\<rparr>)
       (left_join
          (\<lambda>(((b, c), bu), but) d.
             sql_eq (Option.bind but location_department_bkunittp) (department_spdept d))
          (left_join
             (\<lambda>((b, c), bu) but.
                sql_eq (Option.bind bu unit_type_bkunittp) (id_bkunittp but))
             (left_join
                (\<lambda>(b, c) bu. sql_eq (id_bkunit b) (booking_unit_bkunit bu))
                (inner_join (\<lambda>b c. sql_eq (guest_clmain b) (client_clmain c))
                   (t_bkmain db) (t_clmain db))
                (t_bkunit db))
             (t_bkunittp db))
          (t_spdept db))"

definition where_clause :: "joined \<Rightarrow> sql_error + bool option" where
  "where_clause j =
     (case decode_minute (arrival_minute (j_B j)) of
        Inl e \<Rightarrow> Inl e
      | Inr a \<Rightarrow>
          Inr (sql_and
                 (sql_and (Some ((2023, 1, 1) \<le> a))
                    (sql_eq (C_record_marked_deleted (j_C j)) (Some 0)))
                 (sql_eq (Option.bind (j_D j) D_record_marked_deleted) (Some 0))))"

text \<open>A row of the result set, under the column aliases of the \<^verbatim>\<open>SELECT\<close> list.\<close>

record sql_row =
  lodge_name :: "string option"
  lodge_code :: "string option"
  booking_ref :: "string option"
  status_code :: "string option"
  arrival_date :: date
  departure_date :: date
  date_booked :: date
  total_adults :: int
  total_children :: int
  unit_type :: "string option"
  unit_number :: "string option"
  nationality :: "string option"

definition select_clause :: "joined \<Rightarrow> sql_error + sql_row" where
  "select_clause j =
     (case decode_minute (arrival_minute (j_B j)) of
        Inl e \<Rightarrow> Inl e
      | Inr a \<Rightarrow>
     (case decode_minute (departure_minute (j_B j)) of
        Inl e \<Rightarrow> Inl e
      | Inr dep \<Rightarrow>
     (case decode_minute (creation_minute (j_B j)) of
        Inl e \<Rightarrow> Inl e
      | Inr cr \<Rightarrow>
          Inr \<lparr>lodge_name = Option.bind (j_D j) department_description,
               lodge_code = Option.bind (j_D j) department_code,
               booking_ref = booking_reference (j_B j),
               status_code = booking_status (j_B j),
               arrival_date = a,
               departure_date = dep,
               date_booked = cr,
               total_adults =
                 adult_category_1_quantity (j_B j) + adult_category_2_quantity (j_B j),
               total_children =
                 child_category_1_quantity (j_B j) + child_category_2_quantity (j_B j),
               unit_type = Option.bind (j_BUT j) unit_type_description,
               unit_number = Option.bind (j_BU j) unit_name,
               nationality = client_nationality (j_C j)\<rparr>)))"

text \<open>
  The query has no \<^verbatim>\<open>ORDER BY\<close>; the rows are taken in the order of the joins. An error
  of \<^verbatim>\<open>DATEADD\<close> on any row aborts the whole statement.
\<close>

fun run_rows :: "joined list \<Rightarrow> sql_error + sql_row list" where
  "run_rows [] = Inr []"
| "run_rows (j # js) =
     (case where_clause j of
        Inl e \<Rightarrow> Inl e
      | Inr p \<Rightarrow>
          if sql_true p then
            (case select_clause j of
               Inl e \<Rightarrow> Inl e
             | Inr r \<Rightarrow> (case run_rows js of Inl e \<Rightarrow> Inl e | Inr rs \<Rightarrow> Inr (r # rs)))
          else run_rows js)"

definition query :: "database \<Rightarrow> sql_error + sql_row list" where
  "query db = run_rows (from_clause db)"

section \<open>The loader: \<^verbatim>\<open>load_data\<close>\<close>

text \<open>
  \<^verbatim>\<open>load_data\<close> connects, reads the query into a frame, converts two date columns and
  adds the column \<^verbatim>\<open>Total Guests\<close>. The outside world is explicit: whether the server
  accepts the connection, the tables, and the state of every connection handle opened
  so far, as it is while the body of \<^verbatim>\<open>load_data\<close> runs. The function has no call of
  \<^verbatim>\<open>close\<close> and no \<^verbatim>\<open>with\<close> block; when the Python runtime reclaims the connection
  object afterwards, and what the driver does then, is not part of the model. The
  errors carry the kinds the specification names, and the exceptions of pandas their
  Python names.
\<close>

datatype py_error = ConnectionError | QueryError sql_error | TypeError | KeyError

datatype conn_state = Open | Closed

record world =
  reachable :: bool
  db :: database
  conns :: "conn_state list"

text \<open>\<^verbatim>\<open>pyodbc.connect(conn_str)\<close>: a new open handle, or an exception and no handle.\<close>

definition connect :: "world \<Rightarrow> (py_error + nat) \<times> world" where
  "connect w =
     (if reachable w then (Inr (length (conns w)), w\<lparr>conns := conns w @ [Open]\<rparr>)
      else (Inl ConnectionError, w))"

text \<open>\<^verbatim>\<open>pd.read_sql(query, conn)\<close> runs the statement on an open handle.\<close>

definition read_sql :: "nat \<Rightarrow> world \<Rightarrow> (py_error + sql_row list) \<times> world" where
  "read_sql conn w =
     (case query (db w) of
        Inl e \<Rightarrow> (Inl (QueryError e), w)
      | Inr rows \<Rightarrow> (Inr rows, w))"

record booking_record = sql_row +
  total_guests :: int

text \<open>
  Lines 60 to 64: \<^verbatim>\<open>pd.to_datetime\<close> retypes the columns \<^verbatim>\<open>Arrival Date\<close> and
  \<^verbatim>\<open>Date Booked\<close> and leaves their dates as they are; \<^verbatim>\<open>Total Guests\<close> is the sum of
  the two totals. The types of the date columns are kept apart from the rows, in
  \<open>date_column_dtype\<close> below.
\<close>

definition derive :: "sql_row \<Rightarrow> booking_record" where
  "derive r = sql_row.extend r (booking_record.fields (total_adults r + total_children r))"

definition load_data :: "world \<Rightarrow> (py_error + booking_record list) \<times> world" where
  "load_data w =
     (case connect w of
        (Inl e, w1) \<Rightarrow> (Inl e, w1)
      | (Inr conn, w1) \<Rightarrow>
          (case read_sql conn w1 of
             (Inl e, w2) \<Rightarrow> (Inl e, w2)
           | (Inr rows, w2) \<Rightarrow> (Inr (map derive rows), w2)))"

subsection \<open>The types of the date columns\<close>

text \<open>
  \<^verbatim>\<open>pd.read_sql\<close> returns the three \<^verbatim>\<open>DATE\<close> columns of the query as object columns
  of dates. Lines 60 and 61 convert \<^verbatim>\<open>Arrival Date\<close> and \<^verbatim>\<open>Date Booked\<close> to
  \<^verbatim>\<open>datetime64\<close>; no line converts \<^verbatim>\<open>Departure Date\<close>, which stays an object
  column. Selecting rows (\<^verbatim>\<open>df.loc[mask]\<close>) keeps the type of every column, also when
  no row is left.
\<close>

datatype dtype = ObjectDtype | Datetime64

definition converted_columns :: "string list" where
  "converted_columns = [''Arrival Date'', ''Date Booked'']"

definition date_column_dtype :: "string \<Rightarrow> dtype" where
  "date_column_dtype c = (if c \<in> set converted_columns then Datetime64 else ObjectDtype)"

section \<open>Series operations of pandas\<close>

text \<open>
  A column is a list, a nullable column a list of options. \<^verbatim>\<open>unique\<close> keeps the first
  occurrence of every value, in order of appearance.
\<close>

definition unique :: "'a list \<Rightarrow> 'a list" where
  "unique xs = rev (remdups (rev xs))"

definition dropna :: "'a option list \<Rightarrow> 'a list" where
  "dropna xs = concat (map (\<lambda>x. case x of None \<Rightarrow> [] | Some v \<Rightarrow> [v]) xs)"

definition nunique :: "'a option list \<Rightarrow> nat" where
  "nunique xs = length (unique (dropna xs))"

text \<open>\<^verbatim>\<open>min\<close> and \<^verbatim>\<open>max\<close> of a column; of an empty column they are missing (\<^verbatim>\<open>NaT\<close>).\<close>

fun series_min :: "'a::linorder list \<Rightarrow> 'a option" where
  "series_min [] = None"
| "series_min (x # xs) = Some (fold min xs x)"

fun series_max :: "'a::linorder list \<Rightarrow> 'a option" where
  "series_max [] = None"
| "series_max (x # xs) = Some (fold max xs x)"

text \<open>
  \<^verbatim>\<open>mean\<close> is a float: \<open>NaN\<close>, the marker pandas uses for a value that is not
  available, for an empty series. Rounding of the quotient is not modelled.
\<close>

datatype pyfloat = NaN | Fin real

definition series_mean :: "int list \<Rightarrow> pyfloat" where
  "series_mean xs =
     (if xs = [] then NaN else Fin (real_of_int (sum_list xs) / real (length xs)))"

text \<open>
  \<^verbatim>\<open>mode\<close> drops the missing values and returns the most frequent of the others,
  sorted; it is empty when nothing is left.
\<close>

definition mode :: "'a::linorder option list \<Rightarrow> 'a list" where
  "mode xs =
     (let vs = dropna xs;
          top = fold max (map (count_list vs) vs) 0
      in sort (filter (\<lambda>v. count_list vs v = top) (unique vs)))"

text \<open>
  \<^verbatim>\<open>value_counts\<close> drops the missing values and lists every other value with its number
  of rows, the largest count first, equal counts in order of first appearance.
\<close>

definition value_counts :: "'a option list \<Rightarrow> ('a \<times> nat) list" where
  "value_counts xs =
     (let vs = dropna xs
      in sort_key (\<lambda>(v, c). - int c) (map (\<lambda>v. (v, count_list vs v)) (unique vs)))"

subsection \<open>Monthly periods as strings\<close>

text \<open>
  \<^verbatim>\<open>dt.to_period('M')\<close> keeps year and month of a date, and \<^verbatim>\<open>astype(str)\<close> writes the
  period as \<^verbatim>\<open>YYYY-MM\<close>, both numbers in decimal and padded with zeros.
\<close>

type_synonym period = "int \<times> nat"

definition to_period_M :: "date \<Rightarrow> period" where
  "to_period_M d = (fst d, fst (snd d))"

definition digit_char :: "nat \<Rightarrow> char" where
  "digit_char d = char_of (48 + d)"

fun str_nat :: "nat \<Rightarrow> string" where
  "str_nat n = (if n < 10 then [digit_char n] else str_nat (n div 10) @ [digit_char (n mod 10)])"

declare str_nat.simps [simp del]

definition zfill :: "nat \<Rightarrow> string \<Rightarrow> string" where
  "zfill w s = replicate (w - length s) (CHR ''0'') @ s"

definition period_str :: "period \<Rightarrow> string" where
  "period_str p = zfill 4 (str_nat (nat (fst p))) @ ''-'' @ zfill 2 (str_nat (snd p))"

section \<open>The filter\<close>

text \<open>
  The sidebar hands back a date pair and two lists of selected values. With no
  interaction each widget returns its default: the range from the least to the
  greatest arrival date, and every lodge name and status code of the frame.
\<close>

record selection =
  start_date :: date
  end_date :: date
  selected_lodges :: "string option list"
  selected_status :: "string option list"

definition default_selection :: "booking_record list \<Rightarrow> selection option" where
  "default_selection df =
     (case (series_min (map arrival_date df), series_max (map arrival_date df)) of
        (Some min_date, Some max_date) \<Rightarrow>
          Some \<lparr>start_date = min_date, end_date = max_date,
                selected_lodges = unique (map lodge_name df),
                selected_status = unique (map status_code df)\<rparr>
      | _ \<Rightarrow> None)"

definition mask :: "selection \<Rightarrow> booking_record \<Rightarrow> bool" where
  "mask S r =
     (start_date S \<le> arrival_date r \<and>
      arrival_date r \<le> end_date S \<and>
      lodge_name r \<in> set (selected_lodges S) \<and>
      status_code r \<in> set (selected_status S))"

definition filter_df :: "booking_record list \<Rightarrow> selection \<Rightarrow> booking_record list" where
  "filter_df df S = filter (mask S) df"

section \<open>Indicators and charts\<close>

text \<open>Counts and sums are mathematical integers.\<close>

definition total_bookings :: "booking_record list \<Rightarrow> nat" where
  "total_bookings fdf = nunique (map booking_ref fdf)"

definition total_guests_sum :: "booking_record list \<Rightarrow> int" where
  "total_guests_sum fdf = sum_list (map total_guests fdf)"

text \<open>
  A column minus a \<^verbatim>\<open>datetime64\<close> column, in days. From a \<^verbatim>\<open>datetime64\<close> column the
  difference is taken row by row. From an object column pandas refuses the
  subtraction with \<^verbatim>\<open>TypeError\<close>; it decides on the types of the two columns, before
  it looks at any row, so it refuses for a column without rows too.
\<close>

definition minus_datetime64 :: "dtype \<Rightarrow> date list \<Rightarrow> date list \<Rightarrow> py_error + int list" where
  "minus_datetime64 left xs ys =
     (case left of
        ObjectDtype \<Rightarrow> Inl TypeError
      | Datetime64 \<Rightarrow> Inr (map (\<lambda>(x, y). ymd2ord x - ymd2ord y) (zip xs ys)))"

text \<open>
  Line 113: \<^verbatim>\<open>Departure Date\<close> minus the converted \<^verbatim>\<open>Arrival Date\<close>, then the mean of
  the days.
\<close>

definition avg_stay :: "booking_record list \<Rightarrow> py_error + pyfloat" where
  "avg_stay fdf =
     (case minus_datetime64 (date_column_dtype ''Departure Date'')
             (map departure_date fdf) (map arrival_date fdf) of
        Inl e \<Rightarrow> Inl e
      | Inr days \<Rightarrow> Inr (series_mean days))"

text \<open>
  \<^verbatim>\<open>mode()[0] if not filtered_df.empty else "N/A"\<close>: label 0 of the series of modes,
  which raises \<^verbatim>\<open>KeyError\<close> when that series is empty.
\<close>

definition top_nat :: "booking_record list \<Rightarrow> py_error + string" where
  "top_nat fdf =
     (if fdf \<noteq> [] then
        (case mode (map nationality fdf) of
           [] \<Rightarrow> Inl KeyError
         | v # _ \<Rightarrow> Inr v)
      else Inr ''N/A'')"

definition lodge_counts :: "booking_record list \<Rightarrow> (string \<times> nat) list" where
  "lodge_counts fdf = value_counts (map lodge_name fdf)"

definition nat_counts :: "booking_record list \<Rightarrow> (string \<times> nat) list" where
  "nat_counts fdf = take 10 (value_counts (map nationality fdf))"

definition Month :: "booking_record \<Rightarrow> string" where
  "Month r = period_str (to_period_M (arrival_date r))"

text \<open>
  \<^verbatim>\<open>groupby('Month')['Booking Ref'].count()\<close>: one group for every month string, the
  groups in ascending order of their keys, each with the number of its rows whose
  booking reference is present.
\<close>

definition trend_data :: "booking_record list \<Rightarrow> (string \<times> nat) list" where
  "trend_data fdf =
     map (\<lambda>k. (k, length (filter (\<lambda>r. Month r = k \<and> booking_ref r \<noteq> None) fdf)))
       (sort (unique (map Month fdf)))"

record summary =
  s_total_bookings :: nat
  s_total_guests :: int
  s_avg_stay :: pyfloat
  s_top_nat :: string
  s_lodge_counts :: "(string \<times> nat) list"
  s_nat_counts :: "(string \<times> nat) list"
  s_trend_data :: "(string \<times> nat) list"

text \<open>
  Section 5 of the script, top to bottom: the four indicators (lines 111 to 114), then
  the three charts. The first two indicators cannot fail. An exception of
  \<^verbatim>\<open>avg_stay\<close> on line 113 ends the run before line 114 is reached, and an exception
  of \<^verbatim>\<open>top_nat\<close> on line 114 ends it before anything is drawn.
\<close>

definition summarize :: "booking_record list \<Rightarrow> py_error + summary" where
  "summarize fdf =
     (case avg_stay fdf of
        Inl e \<Rightarrow> Inl e
      | Inr a \<Rightarrow>
     (case top_nat fdf of
        Inl e \<Rightarrow> Inl e
      | Inr t \<Rightarrow>
          Inr \<lparr>s_total_bookings = total_bookings fdf,
               s_total_guests = total_guests_sum fdf,
               s_avg_stay = a,
               s_top_nat = t,
               s_lodge_counts = lodge_counts fdf,
               s_nat_counts = nat_counts fdf,
               s_trend_data = trend_data fdf\<rparr>))"

text \<open>
  The monthly trend in the words of the specification: for every month, the number of
  bookings, each booking reference counted once, that arrive in it.
\<close>

definition spec_bookings_in_month :: "booking_record list \<Rightarrow> string \<Rightarrow> nat" where
  "spec_bookings_in_month fdf k = nunique (map booking_ref (filter (\<lambda>r. Month r = k) fdf))"

definition spec_monthly_arrivals_trend :: "booking_record list \<Rightarrow> (string \<times> nat) list" where
  "spec_monthly_arrivals_trend fdf =
     map (\<lambda>k. (k, spec_bookings_in_month fdf k)) (sort (unique (map Month fdf)))"

text \<open>
  The months in which the rows of a frame arrive, each once, from the earliest to the
  latest; periods are ordered by year, then by month.
\<close>

definition arrival_months :: "booking_record list \<Rightarrow> period list" where
  "arrival_months fdf = sort (unique (map (\<lambda>r. to_period_M (arrival_date r)) fdf))"

section \<open>Example data\<close>

text \<open>
  Rows, a selection and small databases on which the theorems below are evaluated.
  The lodge of the examples has one unit type and one unit; guest 1 is a current
  client record.
\<close>

definition example_row ::
  "string option \<Rightarrow> string option \<Rightarrow> string option \<Rightarrow> date \<Rightarrow> string option
     \<Rightarrow> booking_record" where
  "example_row lodge ref status arrival natio =
     \<lparr>lodge_name = lodge, lodge_code = None, booking_ref = ref, status_code = status,
      arrival_date = arrival, departure_date = arrival, date_booked = arrival,
      total_adults = 2, total_children = 0, unit_type = None, unit_number = None,
      nationality = natio, total_guests = 2\<rparr>"

definition example_selection :: selection where
  "example_selection =
     \<lparr>start_date = (2023, 6, 1), end_date = (2023, 6, 15),
      selected_lodges = [Some ''Okaukuejo''], selected_status = [Some ''C'']\<rparr>"

definition example_booking :: "string \<Rightarrow> int \<Rightarrow> int option \<Rightarrow> bkmain" where
  "example_booking ref arrival unit =
     \<lparr>booking_reference = Some ref, booking_status = Some ''C'',
      arrival_minute = arrival, departure_minute = arrival + 2880,
      creation_minute = arrival - 1440,
      adult_category_1_quantity = 2, adult_category_2_quantity = 1,
      child_category_1_quantity = 0, child_category_2_quantity = 1,
      guest_clmain = Some 1, id_bkunit = unit\<rparr>"

text \<open>The row of the frame that an example booking with a unit is loaded as.\<close>

definition example_loaded :: "string \<Rightarrow> date \<Rightarrow> date \<Rightarrow> date \<Rightarrow> booking_record" where
  "example_loaded ref arrival departure booked =
     \<lparr>lodge_name = Some ''Okaukuejo'', lodge_code = Some ''OKA'', booking_ref = Some ref,
      status_code = Some ''C'', arrival_date = arrival, departure_date = departure,
      date_booked = booked, total_adults = 3, total_children = 1,
      unit_type = Some ''Chalet'', unit_number = Some ''Chalet 7'',
      nationality = Some ''Namibian'', total_guests = 4\<rparr>"

definition example_database :: "bkmain list \<Rightarrow> database" where
  "example_database bookings =
     \<lparr>t_bkmain = bookings,
      t_clmain = [\<lparr>client_clmain = Some 1, client_nationality = Some ''Namibian'',
                   C_record_marked_deleted = Some 0\<rparr>],
      t_bkunit = [\<lparr>booking_unit_bkunit = Some 7, unit_name = Some ''Chalet 7'',
                   unit_type_bkunittp = Some 3\<rparr>],
      t_bkunittp = [\<lparr>id_bkunittp = Some 3, unit_type_description = Some ''Chalet'',
                     location_department_bkunittp = Some 5\<rparr>],
      t_spdept = [\<lparr>department_spdept = Some 5, department_description = Some ''Okaukuejo'',
                   department_code = Some ''OKA'', D_record_marked_deleted = Some 0\<rparr>]\<rparr>"

definition example_world :: "bkmain list \<Rightarrow> world" where
  "example_world bookings =
     \<lparr>reachable = True, db = example_database bookings, conns = []\<rparr>"

section \<open>Properties of the series operations\<close>

lemma set_unique: "set (unique xs) = set xs"
  by (simp add: unique_def)

lemma distinct_unique: "distinct (unique xs)"
  by (simp add: unique_def)

lemma set_dropna: "set (dropna xs) = {v. Some v \<in> set xs}"
  by (induction xs) (auto simp: dropna_def split: option.splits)

lemma nunique_card: "nunique xs = card {v. Some v \<in> set xs}"
  by (metis nunique_def distinct_card distinct_unique set_unique set_dropna)

lemma fold_min_le: "fold min xs (a::'a::linorder) \<le> a"
proof (induction xs arbitrary: a)
  case Nil
  then show ?case by simp
next
  case (Cons y ys)
  have "fold min ys (min y a) \<le> min y a" by (rule Cons.IH)
  also have "\<dots> \<le> a" by simp
  finally show ?case by simp
qed

lemma fold_min_le_mem: "x \<in> set xs \<Longrightarrow> fold min xs (a::'a::linorder) \<le> x"
proof (induction xs arbitrary: a)
  case Nil
  then show ?case by simp
next
  case (Cons y ys)
  show ?case
  proof (cases "x = y")
    case True
    have "fold min ys (min y a) \<le> min y a" by (rule fold_min_le)
    then show ?thesis using True by (simp add: min_le_iff_disj)
  next
    case False
    then show ?thesis using Cons by simp
  qed
qed

lemma fold_max_ge: "a \<le> fold max xs (a::'a::linorder)"
proof (induction xs arbitrary: a)
  case Nil
  then show ?case by simp
next
  case (Cons y ys)
  have "a \<le> max y a" by simp
  also have "\<dots> \<le> fold max ys (max y a)" by (rule Cons.IH)
  finally show ?case by simp
qed

lemma fold_max_ge_mem: "x \<in> set xs \<Longrightarrow> x \<le> fold max xs (a::'a::linorder)"
proof (induction xs arbitrary: a)
  case Nil
  then show ?case by simp
next
  case (Cons y ys)
  show ?case
  proof (cases "x = y")
    case True
    have "max y a \<le> fold max ys (max y a)" by (rule fold_max_ge)
    then show ?thesis using True by (simp add: le_max_iff_disj)
  next
    case False
    then show ?thesis using Cons by simp
  qed
qed

lemma series_min_le: "series_min xs = Some a \<Longrightarrow> x \<in> set xs \<Longrightarrow> a \<le> x"
  by (cases xs) (auto simp: fold_min_le fold_min_le_mem)

lemma series_max_ge: "series_max xs = Some b \<Longrightarrow> x \<in> set xs \<Longrightarrow> x \<le> b"
  by (cases xs) (auto simp: fold_max_ge fold_max_ge_mem)

section \<open>The filter keeps exactly the rows that pass all three tests\<close>

text \<open>
  Claim C1. A row of the frame is in the filtered frame if and only if its arrival date
  lies between the selected start and end, both included, its lodge name is among the
  selected lodges and its status code is among the selected codes. In particular a row
  arriving on the end date itself passes when the other tests do, a row arriving after
  the end date (the next day, for one) never passes, and an empty selection of lodges
  or of status codes leaves no row.
\<close>

theorem C1_filter_conjunction:
  "(r \<in> set (filter_df df S) \<longleftrightarrow>
      r \<in> set df \<and> start_date S \<le> arrival_date r \<and> arrival_date r \<le> end_date S \<and>
      lodge_name r \<in> set (selected_lodges S) \<and> status_code r \<in> set (selected_status S))
   \<and> (r \<in> set df \<and> start_date S \<le> end_date S \<and> arrival_date r = end_date S \<and>
        lodge_name r \<in> set (selected_lodges S) \<and> status_code r \<in> set (selected_status S)
        \<longrightarrow> r \<in> set (filter_df df S))
   \<and> (end_date S < arrival_date r \<longrightarrow> r \<notin> set (filter_df df S))
   \<and> (selected_lodges S = [] \<or> selected_status S = [] \<longrightarrow> filter_df df S = [])"
  by (auto simp: filter_df_def mask_def filter_empty_conv)

theorem C1_filter_conjunction_witness:
  "example_row (Some ''Okaukuejo'') (Some ''B1'') (Some ''C'') (2023, 6, 15) None
     \<in> set (filter_df
         [example_row (Some ''Okaukuejo'') (Some ''B1'') (Some ''C'') (2023, 6, 15) None,
          example_row (Some ''Okaukuejo'') (Some ''B2'') (Some ''C'') (2023, 6, 16) None]
         example_selection)
   \<and> arrival_date
       (example_row (Some ''Okaukuejo'') (Some ''B1'') (Some ''C'') (2023, 6, 15) None)
     = end_date example_selection
   \<and> end_date example_selection
     < arrival_date
         (example_row (Some ''Okaukuejo'') (Some ''B2'') (Some ''C'') (2023, 6, 16) None)
   \<and> example_row (Some ''Okaukuejo'') (Some ''B2'') (Some ''C'') (2023, 6, 16) None
     \<notin> set (filter_df
         [example_row (Some ''Okaukuejo'') (Some ''B1'') (Some ''C'') (2023, 6, 15) None,
          example_row (Some ''Okaukuejo'') (Some ''B2'') (Some ''C'') (2023, 6, 16) None]
         example_selection)
   \<and> selected_lodges (example_selection\<lparr>selected_lodges := []\<rparr>) = []
   \<and> filter_df
         [example_row (Some ''Okaukuejo'') (Some ''B1'') (Some ''C'') (2023, 6, 15) None,
          example_row (Some ''Okaukuejo'') (Some ''B2'') (Some ''C'') (2023, 6, 16) None]
         (example_selection\<lparr>selected_lodges := []\<rparr>) = []"
  using
    C1_filter_conjunction
      [of "example_row (Some ''Okaukuejo'') (Some ''B1'') (Some ''C'') (2023, 6, 15) None"
          "[example_row (Some ''Okaukuejo'') (Some ''B1'') (Some ''C'') (2023, 6, 15) None,
            example_row (Some ''Okaukuejo'') (Some ''B2'') (Some ''C'') (2023, 6, 16) None]"
          example_selection]
    C1_filter_conjunction
      [of "example_row (Some ''Okaukuejo'') (Some ''B2'') (Some ''C'') (2023, 6, 16) None"
          "[example_row (Some ''Okaukuejo'') (Some ''B1'') (Some ''C'') (2023, 6, 15) None,
            example_row (Some ''Okaukuejo'') (Some ''B2'') (Some ''C'') (2023, 6, 16) None]"
          "example_selection\<lparr>selected_lodges := []\<rparr>"]
  by (simp add: example_row_def example_selection_def filter_df_def mask_def)

section \<open>The default selection\<close>

lemma default_selection_all:
  assumes "default_selection df = Some S"
  shows "filter_df df S = df"
proof -
  obtain a b where a: "series_min (map arrival_date df) = Some a"
    and b: "series_max (map arrival_date df) = Some b"
    and S: "S = \<lparr>start_date = a, end_date = b,
                 selected_lodges = unique (map lodge_name df),
                 selected_status = unique (map status_code df)\<rparr>"
    using assms by (auto simp: default_selection_def split: option.splits)
  have "mask S r" if "r \<in> set df" for r
  proof -
    have "arrival_date r \<in> set (map arrival_date df)" using that by simp
    then have "a \<le> arrival_date r" "arrival_date r \<le> b"
      using series_min_le [OF a] series_max_ge [OF b] by blast+
    then show ?thesis using that by (simp add: mask_def S set_unique)
  qed
  then show ?thesis by (simp add: filter_df_def)
qed

text \<open>
  Claim C10. Filtering a frame with the selection the widgets return by default (the
  range from its least to its greatest arrival date, all its lodge names, all its
  status codes) returns the frame itself. A frame with no rows has no least or
  greatest arrival date; whatever selection the widgets then return, the filtered
  frame is the empty frame again.
\<close>

theorem C10_default_selection_identity:
  "(df \<noteq> [] \<longrightarrow> (\<exists>S. default_selection df = Some S \<and> filter_df df S = df))
   \<and> filter_df [] S0 = []"
proof (intro conjI impI)
  assume "df \<noteq> []"
  then obtain r rs where "df = r # rs" by (cases df) auto
  then obtain S where "default_selection df = Some S"
    by (auto simp: default_selection_def)
  then show "\<exists>S. default_selection df = Some S \<and> filter_df df S = df"
    using default_selection_all by blast
next
  show "filter_df [] S0 = []" by (simp add: filter_df_def)
qed

theorem C10_default_selection_identity_witness:
  "[example_row (Some ''Okaukuejo'') (Some ''B1'') (Some ''C'') (2023, 6, 15) None,
    example_row None (Some ''B2'') (Some ''X'') (2023, 3, 10) None] \<noteq> []
   \<and> default_selection
       [example_row (Some ''Okaukuejo'') (Some ''B1'') (Some ''C'') (2023, 6, 15) None,
        example_row None (Some ''B2'') (Some ''X'') (2023, 3, 10) None]
     = Some \<lparr>start_date = (2023, 3, 10), end_date = (2023, 6, 15),
             selected_lodges = [Some ''Okaukuejo'', None],
             selected_status = [Some ''C'', Some ''X'']\<rparr>
   \<and> filter_df
       [example_row (Some ''Okaukuejo'') (Some ''B1'') (Some ''C'') (2023, 6, 15) None,
        example_row None (Some ''B2'') (Some ''X'') (2023, 3, 10) None]
       \<lparr>start_date = (2023, 3, 10), end_date = (2023, 6, 15),
        selected_lodges = [Some ''Okaukuejo'', None],
        selected_status = [Some ''C'', Some ''X'']\<rparr>
     = [example_row (Some ''Okaukuejo'') (Some ''B1'') (Some ''C'') (2023, 6, 15) None,
        example_row None (Some ''B2'') (Some ''X'') (2023, 3, 10) None]"
  using
    C10_default_selection_identity
      [of "[example_row (Some ''Okaukuejo'') (Some ''B1'') (Some ''C'') (2023, 6, 15) None,
            example_row None (Some ''B2'') (Some ''X'') (2023, 3, 10) None]"]
  by (simp add: default_selection_def unique_def example_row_def)

section \<open>Indicators\<close>

text \<open>
  Claim C3. \<^verbatim>\<open>total_bookings\<close> is the number of distinct booking references of the
  filtered frame, not its number of rows: two rows that carry the reference B1 count
  once.
\<close>

theorem C3_total_bookings_distinct:
  "total_bookings fdf = card {b. \<exists>r \<in> set fdf. booking_ref r = Some b}
   \<and> total_bookings
       [example_row l1 (Some ''B1'') s1 a1 n1, example_row l2 (Some ''B1'') s2 a2 n2] = 1"
proof
  have "{v. Some v \<in> set (map booking_ref fdf)} = {b. \<exists>r \<in> set fdf. booking_ref r = Some b}"
    by force
  then show "total_bookings fdf = card {b. \<exists>r \<in> set fdf. booking_ref r = Some b}"
    by (simp add: total_bookings_def nunique_card)
next
  show "total_bookings
       [example_row l1 (Some ''B1'') s1 a1 n1, example_row l2 (Some ''B1'') s2 a2 n2] = 1"
    by (simp add: total_bookings_def nunique_def unique_def dropna_def example_row_def)
qed

lemma Departure_Date_dtype: "date_column_dtype ''Departure Date'' = ObjectDtype"
  by (simp add: date_column_dtype_def converted_columns_def)

lemma avg_stay_raises: "avg_stay fdf = Inl TypeError"
  by (simp add: avg_stay_def minus_datetime64_def Departure_Date_dtype)

text \<open>
  Claim C2 says that on the empty filtered frame the indicators are 0 bookings, 0
  guests, an average stay and a top nationality that are not available, and three
  empty tables, and that nothing is raised. Six of the seven hold on the empty frame.
  The average stay does not: \<^verbatim>\<open>Departure Date\<close> is still an object column, so line
  113 raises \<^verbatim>\<open>TypeError\<close>, and the run ends there.
\<close>

theorem C2_summarize_empty_raises:
  "summarize [] = Inl TypeError
   \<and> avg_stay [] = Inl TypeError
   \<and> total_bookings [] = 0
   \<and> total_guests_sum [] = 0
   \<and> top_nat [] = Inr ''N/A''
   \<and> lodge_counts [] = []
   \<and> nat_counts [] = []
   \<and> trend_data [] = []"
  by (simp add: summarize_def avg_stay_raises top_nat_def total_bookings_def nunique_def
      unique_def dropna_def total_guests_sum_def lodge_counts_def nat_counts_def
      value_counts_def trend_data_def)

text \<open>
  Claim C8 says that the indicators are computed without an exception for every
  filtered frame, also when it has rows and every nationality is missing. On a frame
  of one row without nationality the series of modes is empty and its label 0 does
  not exist: \<^verbatim>\<open>top_nat\<close> raises \<^verbatim>\<open>KeyError\<close>. The run does not get that far: it has
  ended with the \<^verbatim>\<open>TypeError\<close> of line 113.
\<close>

theorem C8_top_nat_all_null_raises:
  "top_nat [example_row (Some ''Okaukuejo'') (Some ''B1'') (Some ''C'') (2023, 6, 15) None]
     = Inl KeyError
   \<and> summarize [example_row (Some ''Okaukuejo'') (Some ''B1'') (Some ''C'') (2023, 6, 15) None]
     = Inl TypeError"
  by (simp add: summarize_def avg_stay_raises top_nat_def mode_def dropna_def unique_def
      example_row_def)

section \<open>Decoding minute offsets\<close>

lemma decode_minute_eq:
  "decode_minute m =
     (if 1753 \<le> fst (spec_decode m) \<and> fst (spec_decode m) \<le> 9999
      then Inr (spec_decode m) else Inl DatetimeOverflow)"
proof -
  define E where "E = ymd2ord (1897, 1, 1)"
  define Z where "Z = ymd2ord (1900, 1, 1)"
  have "((E - 1) * 1440 + m) div 1440 + 1 = E + m div 1440"
    by simp
  then have s: "spec_decode m = ord2ymd (E + m div 1440)"
    unfolding spec_decode_def spec_date_of_minute_def spec_epoch_minute_def E_def [symmetric]
    by simp
  have "E - Z + m div 1440 + Z = E + m div 1440"
    by simp
  then have c: "CAST_DATE \<lparr>dt_days = E - Z + m div 1440, dt_minutes = m mod 1440\<rparr>
      = spec_decode m"
    unfolding s CAST_DATE_def Z_def [symmetric] by simp
  show ?thesis
    unfolding decode_minute_def DATEADD_minute_def datetime_of_date_def Let_def
      datetime_in_range_def E_def [symmetric] Z_def [symmetric]
    using c by simp
qed

text \<open>
  Claim C7, amended. For every minute offset \<open>m\<close> whose instant, the epoch
  1897-01-01T00:00 plus \<open>m\<close> minutes, falls in a year from 1753 to 9999 (the range of
  \<^verbatim>\<open>datetime\<close>), the query decodes \<open>m\<close> to the calendar date of that instant. The
  number of minutes from 1897-01-01T00:00 to 2023-06-15T00:00 is 66506400, and it
  decodes to 2023-06-15.
\<close>

theorem C7_decode_in_range:
  "(1753 \<le> fst (spec_decode m) \<and> fst (spec_decode m) \<le> 9999
      \<longrightarrow> decode_minute m = Inr (spec_decode m))
   \<and> (ymd2ord (2023, 6, 15) - ymd2ord (1897, 1, 1)) * 1440 = 66506400
   \<and> decode_minute 66506400 = Inr (2023, 6, 15)"
proof (intro conjI impI)
  show "(ymd2ord (2023, 6, 15) - ymd2ord (1897, 1, 1)) * 1440 = 66506400" by code_simp
  show "decode_minute 66506400 = Inr (2023, 6, 15)" by code_simp
qed (simp add: decode_minute_eq)

theorem C7_decode_in_range_witness:
  "1753 \<le> fst (spec_decode 66510720) \<and> fst (spec_decode 66510720) \<le> 9999
   \<and> decode_minute 66510720 = Inr (spec_decode 66510720)
   \<and> spec_decode 66510720 = (2023, 6, 18)"
proof -
  have s: "spec_decode 66510720 = (2023, 6, 18)" by code_simp
  show ?thesis using C7_decode_in_range [of 66510720] by (simp add: s)
qed

text \<open>
  As claim C7 states it, for every stored offset, it fails: one minute before
  1753-01-01T00:00 the instant lies on 1752-12-31, and \<^verbatim>\<open>DATEADD\<close> raises an error
  instead of returning that date.
\<close>

theorem C7_decode_counterexample:
  "decode_minute (- 75736801) = Inl DatetimeOverflow
   \<and> spec_decode (- 75736801) = (1752, 12, 31)"
  by code_simp

section \<open>What every loaded row satisfies\<close>

text \<open>
  A row reaches the frame only through the \<^verbatim>\<open>WHERE\<close> clause: its arrival date is a
  date that \<^verbatim>\<open>DATEADD\<close> produced, so its year has at most four digits and its month
  lies between 1 and 12, and it is not before 2023-01-01.
\<close>

lemma month_walk_bounds: "month_walk ls m n = (m', d) \<Longrightarrow> m \<le> m' \<and> m' \<le> m + length ls"
proof (induction ls arbitrary: m n)
  case Nil
  then show ?case by simp
next
  case (Cons l ls)
  show ?case
  proof (cases "n < l")
    case True
    then show ?thesis using Cons.prems by simp
  next
    case False
    then have "month_walk ls (Suc m) (n - l) = (m', d)" using Cons.prems by simp
    from Cons.IH [OF this] show ?thesis by simp
  qed
qed

lemma ord2ymd_cases:
  "(\<exists>y. ord2ymd n = (y, 12, 31)) \<or>
   (\<exists>y leap k. ord2ymd n = (y, month_walk (butlast (days_in_months leap)) 1 k))"
  unfolding ord2ymd_def Let_def
  by (simp split: prod.splits) blast

lemma ord2ymd_month: "1 \<le> fst (snd (ord2ymd n)) \<and> fst (snd (ord2ymd n)) \<le> 12"
proof -
  consider y where "ord2ymd n = (y, 12, 31)"
    | y leap k where "ord2ymd n = (y, month_walk (butlast (days_in_months leap)) 1 k)"
    using ord2ymd_cases by blast
  then show ?thesis
  proof cases
    case 1
    then show ?thesis by simp
  next
    case 2
    obtain m d where md: "month_walk (butlast (days_in_months leap)) 1 k = (m, d)"
      by (cases "month_walk (butlast (days_in_months leap)) 1 k") auto
    from month_walk_bounds [OF md] have "1 \<le> m \<and> m \<le> 12"
      by (simp add: days_in_months_def)
    then show ?thesis using 2 md by simp
  qed
qed

lemma decode_minute_bounds:
  assumes "decode_minute m = Inr a"
  shows "fst a \<le> 9999 \<and> 1 \<le> fst (snd a) \<and> fst (snd a) \<le> 12"
proof -
  have a: "a = spec_decode m" and y: "fst (spec_decode m) \<le> 9999"
    using assms by (auto simp: decode_minute_eq split: if_splits)
  have "a = ord2ymd ((spec_epoch_minute + m) div 1440 + 1)"
    using a by (simp add: spec_decode_def spec_date_of_minute_def)
  then show ?thesis using ord2ymd_month a y by simp
qed

lemma run_rows_mem:
  "run_rows js = Inr rs \<Longrightarrow> r \<in> set rs \<Longrightarrow>
     \<exists>j \<in> set js. where_clause j = Inr (Some True) \<and> select_clause j = Inr r"
proof (induction js arbitrary: rs)
  case Nil
  then show ?case by simp
next
  case (Cons j js)
  then show ?case
    by (auto simp: sql_true_def split: sum.splits if_splits)
qed

lemma sql_and_true: "sql_and p q = Some True \<longleftrightarrow> p = Some True \<and> q = Some True"
  by (auto simp: sql_and_def)

lemma loaded_row_arrival:
  assumes "where_clause j = Inr (Some True)" and "select_clause j = Inr r"
  shows "(2023, 1, 1) \<le> arrival_date r \<and> fst (arrival_date r) \<le> 9999 \<and>
         1 \<le> fst (snd (arrival_date r)) \<and> fst (snd (arrival_date r)) \<le> 12"
proof -
  obtain a where a: "decode_minute (arrival_minute (j_B j)) = Inr a"
    and ge: "(2023, 1, 1) \<le> a"
    using assms(1) by (auto simp: where_clause_def sql_and_true split: sum.splits)
  have "arrival_date r = a"
    using assms(2) a by (auto simp: select_clause_def split: sum.splits)
  then show ?thesis using decode_minute_bounds [OF a] ge by simp
qed

lemma arrival_date_derive: "arrival_date (derive r) = arrival_date r"
  by (simp add: derive_def sql_row.defs booking_record.defs)

lemma load_data_arrival:
  assumes "load_data w = (Inr df, w')" and "r \<in> set df"
  shows "(2023, 1, 1) \<le> arrival_date r \<and> fst (arrival_date r) \<le> 9999 \<and>
         1 \<le> fst (snd (arrival_date r)) \<and> fst (snd (arrival_date r)) \<le> 12"
proof -
  obtain rows where q: "query (db w) = Inr rows" and df: "df = map derive rows"
    using assms(1)
    by (auto simp: load_data_def connect_def read_sql_def split: if_splits sum.splits)
  then obtain r0 where r0: "r0 \<in> set rows" and r: "r = derive r0"
    using assms(2) by auto
  obtain j where "where_clause j = Inr (Some True)" "select_clause j = Inr r0"
    using run_rows_mem [OF q [unfolded query_def] r0] by blast
  from loaded_row_arrival [OF this] show ?thesis
    by (simp add: r arrival_date_derive)
qed

section \<open>Month strings order as months do\<close>

lemma digit_char_less:
  "a < 10 \<Longrightarrow> b < 10 \<Longrightarrow> digit_char a < digit_char b \<longleftrightarrow> a < b"
  by (simp add: digit_char_def less_char_def)

lemma digit_char_eq:
  "a < 10 \<Longrightarrow> b < 10 \<Longrightarrow> digit_char a = digit_char b \<longleftrightarrow> a = b"
  using digit_char_less [of a b] digit_char_less [of b a] by (metis less_irrefl nat_neq_iff)

lemma str_nat_4:
  assumes "1000 \<le> n" "n \<le> 9999"
  shows "str_nat n = [digit_char (n div 1000), digit_char (n div 100 mod 10),
                      digit_char (n div 10 mod 10), digit_char (n mod 10)]"
proof -
  have a: "\<not> n < 10" "\<not> n div 10 < 10" "\<not> n div 100 < 10" "n div 1000 < 10"
    using assms by auto
  have d: "n div 10 div 10 = n div 100" "n div 100 div 10 = n div 1000"
    by (simp_all add: div_mult2_eq [symmetric])
  have "str_nat n = str_nat (n div 10) @ [digit_char (n mod 10)]"
    using a by (subst str_nat.simps) simp
  also have "str_nat (n div 10) = str_nat (n div 100) @ [digit_char (n div 10 mod 10)]"
    using a d by (subst str_nat.simps) simp
  also have "str_nat (n div 100) = str_nat (n div 1000) @ [digit_char (n div 100 mod 10)]"
    using a d by (subst str_nat.simps) simp
  also have "str_nat (n div 1000) = [digit_char (n div 1000)]"
    using a by (subst str_nat.simps) simp
  finally show ?thesis by simp
qed

lemma zfill_2:
  assumes "m < 100"
  shows "zfill 2 (str_nat m) = [digit_char (m div 10), digit_char (m mod 10)]"
proof (cases "m < 10")
  case True
  have "digit_char 0 = CHR ''0''" by code_simp
  then show ?thesis using True by (subst str_nat.simps) (simp add: zfill_def)
next
  case False
  then have "m div 10 < 10" using assms by auto
  then have "str_nat (m div 10) = [digit_char (m div 10)]"
    by (subst str_nat.simps) simp
  then have "str_nat m = [digit_char (m div 10), digit_char (m mod 10)]"
    using False by (subst str_nat.simps) simp
  then show ?thesis by (simp add: zfill_def)
qed


lemma digit_step:
  fixes a b :: nat
  assumes "a < b"
  shows "a div 10 < b div 10 \<or> a div 10 = b div 10 \<and> a mod 10 < b mod 10"
proof (cases "a div 10 = b div 10")
  case True
  define q where "q = a div 10"
  define r where "r = a mod 10"
  define r' where "r' = b mod 10"
  have a: "a = 10 * q + r" unfolding q_def r_def by simp
  have b: "b = 10 * q + r'" unfolding q_def r'_def True by simp
  have "r < r'" using assms unfolding a b by simp
  then show ?thesis using True by (simp add: r_def r'_def)
next
  case False
  have "a div 10 \<le> b div 10" using assms by (simp add: div_le_mono)
  then show ?thesis using False by simp
qed

lemma digits_less_arith:
  fixes a b :: nat
  assumes "a < b"
  shows "a div 1000 < b div 1000 \<or> a div 1000 = b div 1000 \<and>
          (a div 100 mod 10 < b div 100 mod 10 \<or> a div 100 mod 10 = b div 100 mod 10 \<and>
            (a div 10 mod 10 < b div 10 mod 10 \<or> a div 10 mod 10 = b div 10 mod 10 \<and>
              a mod 10 < b mod 10))"
proof -
  have d: "a div 10 div 10 = a div 100" "a div 100 div 10 = a div 1000"
    "b div 10 div 10 = b div 100" "b div 100 div 10 = b div 1000"
    by (simp_all add: div_mult2_eq [symmetric])
  note s1 = digit_step [OF assms]
  show ?thesis
  proof (cases "a div 10 = b div 10")
    case True
    then have "a div 100 = b div 100" "a div 1000 = b div 1000"
      using d by metis+
    then show ?thesis using s1 True by simp
  next
    case n1: False
    then have l1: "a div 10 < b div 10" using s1 by simp
    note s2 = digit_step [OF l1, unfolded d]
    show ?thesis
    proof (cases "a div 100 = b div 100")
      case True
      then have "a div 1000 = b div 1000" using d by metis
      then show ?thesis using s2 True by simp
    next
      case n2: False
      then have l2: "a div 100 < b div 100" using s2 by simp
      note s3 = digit_step [OF l2, unfolded d]
      then show ?thesis by blast
    qed
  qed
qed

lemma str_nat_4_less:
  assumes "1000 \<le> a" "a < b" "b \<le> 9999"
  shows "str_nat a @ xs < str_nat b @ ys"
proof -
  have bd: "a div 1000 < 10" "b div 1000 < 10" using assms by auto
  have sa: "str_nat a = [digit_char (a div 1000), digit_char (a div 100 mod 10),
                         digit_char (a div 10 mod 10), digit_char (a mod 10)]"
    using assms by (intro str_nat_4) auto
  have sb: "str_nat b = [digit_char (b div 1000), digit_char (b div 100 mod 10),
                         digit_char (b div 10 mod 10), digit_char (b mod 10)]"
    using assms by (intro str_nat_4) auto
  show ?thesis
    unfolding sa sb
    using digits_less_arith [OF assms(2)] bd
    by (simp add: digit_char_less digit_char_eq) blast
qed

lemma append_same_less: "us @ xs < us @ ys \<longleftrightarrow> xs < (ys :: 'a::linorder list)"
  by (induction us) auto

lemma zfill_2_less:
  assumes "m1 < m2" "m2 < 100"
  shows "zfill 2 (str_nat m1) < zfill 2 (str_nat m2)"
proof -
  have "m1 div 10 < 10" "m2 div 10 < 10" "m1 < 100" using assms by auto
  then show ?thesis
    using digit_step [OF assms(1)] assms
    by (simp add: zfill_2 digit_char_less digit_char_eq)
qed

lemma period_str_less:
  assumes "1000 \<le> fst p" "fst q \<le> 9999" "snd q < 100" "p < q"
  shows "period_str p < period_str q"
proof -
  obtain y1 m1 y2 m2 where p: "p = (y1, m1)" and q: "q = (y2, m2)"
    by (cases p, cases q) auto
  have "y1 < y2 \<or> y1 = y2 \<and> m1 < m2" using assms(4) by (auto simp: p q)
  then show ?thesis
  proof
    assume lt: "y1 < y2"
    then have "1000 \<le> nat y1" "nat y1 < nat y2" "nat y2 \<le> 9999"
      using assms by (auto simp: p q)
    from str_nat_4_less [OF this]
    have "str_nat (nat y1) @ ''-'' @ zfill 2 (str_nat m1)
        < str_nat (nat y2) @ ''-'' @ zfill 2 (str_nat m2)" .
    moreover have "length (str_nat (nat y1)) = 4" "length (str_nat (nat y2)) = 4"
      using lt assms by (simp_all add: str_nat_4 p q)
    ultimately show ?thesis
      by (simp add: period_str_def p q zfill_def)
  next
    assume eq: "y1 = y2 \<and> m1 < m2"
    then have "zfill 2 (str_nat m1) < zfill 2 (str_nat m2)"
      using zfill_2_less assms by (simp add: q)
    then show ?thesis using eq
      by (simp add: period_str_def p q append_same_less)
  qed
qed

lemma sorted_Month_keys:
  assumes "\<forall>r \<in> set fdf. 1000 \<le> fst (arrival_date r) \<and> fst (arrival_date r) \<le> 9999 \<and>
             fst (snd (arrival_date r)) < 100"
  shows "sort (unique (map Month fdf)) = map period_str (arrival_months fdf)"
proof (rule sorted_distinct_set_unique)
  let ?ps = "arrival_months fdf"
  have set_ps: "set ?ps = (\<lambda>r. to_period_M (arrival_date r)) ` set fdf"
    by (simp add: arrival_months_def set_unique)
  have strict: "sorted_wrt (<) ?ps"
    by (simp add: arrival_months_def strict_sorted_iff distinct_unique)
  have valid: "1000 \<le> fst p \<and> fst p \<le> 9999 \<and> snd p < 100" if "p \<in> set ?ps" for p
    using that assms unfolding set_ps by (auto simp: to_period_M_def)
  have "sorted_wrt (\<lambda>a b. period_str a < period_str b) ?ps"
    using strict
  proof (rule sorted_wrt_mono_rel [rotated])
    fix a b assume "a \<in> set ?ps" "b \<in> set ?ps" "a < b"
    then show "period_str a < period_str b"
      using valid [of a] valid [of b] by (intro period_str_less) auto
  qed
  then have "sorted_wrt (<) (map period_str ?ps)"
    by (simp add: sorted_wrt_map)
  then show "sorted (map period_str ?ps)" "distinct (map period_str ?ps)"
    by (simp_all add: strict_sorted_iff)
  show "sorted (sort (unique (map Month fdf)))" by simp
  show "distinct (sort (unique (map Month fdf)))" by (simp add: distinct_unique)
  show "set (sort (unique (map Month fdf))) = set (map period_str ?ps)"
    unfolding set_map set_ps by (auto simp: set_unique Month_def)
qed

lemma map_fst_trend_data: "map fst (trend_data fdf) = sort (unique (map Month fdf))"
  by (simp add: trend_data_def comp_def)

lemma example_row_sel [simp]:
  "lodge_name (example_row l b s a n) = l"
  "booking_ref (example_row l b s a n) = b"
  "status_code (example_row l b s a n) = s"
  "arrival_date (example_row l b s a n) = a"
  "nationality (example_row l b s a n) = n"
  by (simp_all add: example_row_def)

lemma example_loaded_sel [simp]:
  "lodge_name (example_loaded b a d c) = Some ''Okaukuejo''"
  "booking_ref (example_loaded b a d c) = Some b"
  "status_code (example_loaded b a d c) = Some ''C''"
  "arrival_date (example_loaded b a d c) = a"
  by (simp_all add: example_loaded_def)

lemma period_str_examples:
  "period_str (2023, 1) = ''2023-01''"
  "period_str (2023, 3) = ''2023-03''"
  "period_str (2023, 6) = ''2023-06''"
  by code_simp+

section \<open>The monthly trend\<close>

text \<open>
  Claim C6. For every frame the loader returns and every selection, the keys of the
  monthly trend of the filtered frame are the strings of the months in which its rows
  arrive, in chronological order and each once, whatever the order of the rows: of a
  booking arriving in March followed by one arriving in January, January comes first.
\<close>

theorem C6_trend_keys_chronological:
  "fst (load_data w) = Inr df \<Longrightarrow>
     map fst (trend_data (filter_df df S)) = map period_str (arrival_months (filter_df df S))
     \<and> sorted_wrt (<) (arrival_months (filter_df df S))"
proof
  assume L: "fst (load_data w) = Inr df"
  then have L': "load_data w = (Inr df, snd (load_data w))"
    by (metis prod.collapse)
  have "\<forall>r \<in> set (filter_df df S). 1000 \<le> fst (arrival_date r) \<and>
          fst (arrival_date r) \<le> 9999 \<and> fst (snd (arrival_date r)) < 100"
  proof
    fix r assume "r \<in> set (filter_df df S)"
    then have "r \<in> set df" by (simp add: filter_df_def)
    from load_data_arrival [OF L' this]
    have "(2023, 1, 1) \<le> arrival_date r" "fst (arrival_date r) \<le> 9999"
      "fst (snd (arrival_date r)) \<le> 12" by simp_all
    moreover from this(1) have "2023 \<le> fst (arrival_date r)"
      by (cases "arrival_date r") (auto simp: less_eq_prod_def)
    ultimately show "1000 \<le> fst (arrival_date r) \<and>
          fst (arrival_date r) \<le> 9999 \<and> fst (snd (arrival_date r)) < 100"
      by simp
  qed
  from sorted_Month_keys [OF this]
  show "map fst (trend_data (filter_df df S)) = map period_str (arrival_months (filter_df df S))"
    by (simp add: map_fst_trend_data)
  show "sorted_wrt (<) (arrival_months (filter_df df S))"
    by (simp add: arrival_months_def strict_sorted_iff distinct_unique)
qed

theorem C6_trend_keys_chronological_witness:
  "fst (load_data (example_world
          [example_booking ''B1'' 66366720 (Some 7), example_booking ''B2'' 66274560 (Some 7)]))
     = Inr [example_loaded ''B1'' (2023, 3, 10) (2023, 3, 12) (2023, 3, 9),
            example_loaded ''B2'' (2023, 1, 5) (2023, 1, 7) (2023, 1, 4)]
   \<and> map fst (trend_data (filter_df
         [example_loaded ''B1'' (2023, 3, 10) (2023, 3, 12) (2023, 3, 9),
          example_loaded ''B2'' (2023, 1, 5) (2023, 1, 7) (2023, 1, 4)]
         \<lparr>start_date = (2023, 1, 1), end_date = (2023, 12, 31),
          selected_lodges = [Some ''Okaukuejo''], selected_status = [Some ''C'']\<rparr>))
     = [''2023-01'', ''2023-03'']"
proof -
  let ?df = "[example_loaded ''B1'' (2023, 3, 10) (2023, 3, 12) (2023, 3, 9),
              example_loaded ''B2'' (2023, 1, 5) (2023, 1, 7) (2023, 1, 4)]"
  let ?S = "\<lparr>start_date = (2023, 1, 1), end_date = (2023, 12, 31),
             selected_lodges = [Some ''Okaukuejo''], selected_status = [Some ''C'']\<rparr>"
  have L: "fst (load_data (example_world
          [example_booking ''B1'' 66366720 (Some 7), example_booking ''B2'' 66274560 (Some 7)]))
     = Inr ?df"
    by code_simp
  have F: "filter_df ?df ?S = ?df"
    by (simp add: filter_df_def mask_def)
  have A: "arrival_months ?df = [(2023, 1), (2023, 3)]"
    by (simp add: arrival_months_def unique_def to_period_M_def)
  from C6_trend_keys_chronological [OF L, of ?S]
  have "map fst (trend_data (filter_df ?df ?S))
      = map period_str (arrival_months (filter_df ?df ?S))"
    by (rule conjunct1)
  also have "\<dots> = map period_str [(2023, 1), (2023, 3)]"
    unfolding F A ..
  also have "\<dots> = [''2023-01'', ''2023-03'']"
    by (simp only: list.map period_str_examples)
  finally show ?thesis
    using L by (intro conjI)
qed

text \<open>
  Claim C5, amended. The monthly trend has one entry for every month string of the
  filtered frame, and the count of an entry is the number of rows of that month that
  carry a booking reference: a booking that takes up several rows in a month is
  counted once for each of them.
\<close>

theorem C5_trend_counts_rows:
  "map fst (trend_data fdf) = sort (unique (map Month fdf))
   \<and> ((k, c) \<in> set (trend_data fdf) \<longrightarrow>
        k \<in> Month ` set fdf \<and>
        c = length (filter (\<lambda>r. Month r = k \<and> booking_ref r \<noteq> None) fdf))"
  by (auto simp: trend_data_def comp_def set_unique)

theorem C5_trend_counts_rows_witness:
  "(''2023-06'', 2) \<in> set (trend_data
       [example_row None (Some ''B1'') None (2023, 6, 15) None,
        example_row None (Some ''B1'') None (2023, 6, 20) None])
   \<and> length (filter (\<lambda>r. Month r = ''2023-06'' \<and> booking_ref r \<noteq> None)
       [example_row None (Some ''B1'') None (2023, 6, 15) None,
        example_row None (Some ''B1'') None (2023, 6, 20) None]) = 2"
  using C5_trend_counts_rows
    [of "[example_row None (Some ''B1'') None (2023, 6, 15) None,
          example_row None (Some ''B1'') None (2023, 6, 20) None]" "''2023-06''" 2]
  by (simp add: trend_data_def Month_def to_period_M_def period_str_examples unique_def)

text \<open>
  As claim C5 states it, each booking counted once per month, it fails: for a booking
  B1 with two rows in June 2023 the trend says 2, and the count of distinct references
  is 1.
\<close>

theorem C5_trend_counts_rows_counterexample:
  "trend_data [example_row None (Some ''B1'') None (2023, 6, 15) None,
               example_row None (Some ''B1'') None (2023, 6, 20) None] = [(''2023-06'', 2)]
   \<and> spec_monthly_arrivals_trend
        [example_row None (Some ''B1'') None (2023, 6, 15) None,
         example_row None (Some ''B1'') None (2023, 6, 20) None] = [(''2023-06'', 1)]"
  by (simp add: trend_data_def spec_monthly_arrivals_trend_def spec_bookings_in_month_def
      Month_def to_period_M_def period_str_examples unique_def nunique_def dropna_def)

section \<open>Bookings without a unit\<close>

text \<open>
  The \<^verbatim>\<open>WHERE\<close> clause asks for \<^verbatim>\<open>D.record_marked_deleted = 0\<close>. For a row whose
  department is \<^verbatim>\<open>NULL\<close> that comparison is unknown, not true, so only rows with a
  department pass.
\<close>

lemma where_clause_needs_department:
  "where_clause j = Inr (Some True) \<Longrightarrow> \<exists>d. j_D j = Some d \<and> D_record_marked_deleted d = Some 0"
  by (cases "j_D j")
     (auto simp: where_clause_def sql_and_true sql_eq_def split: sum.splits option.splits)

text \<open>
  Claim C4 says that a booking without a unit still appears in the frame, with its
  lodge and unit columns null, thanks to the left joins. The joins do keep it: the
  \<^verbatim>\<open>FROM\<close> clause has its row, with no unit, unit type or department, its guest
  record is not deleted and its arrival decodes to 2023-06-15. The \<^verbatim>\<open>WHERE\<close> clause
  then drops it, and the query returns nothing; the same booking with a unit is
  loaded.
\<close>

theorem C4_unassigned_booking_dropped:
  "query (example_database [example_booking ''B1'' 66506400 None]) = Inr []
   \<and> from_clause (example_database [example_booking ''B1'' 66506400 None])
     = [\<lparr>j_B = example_booking ''B1'' 66506400 None,
         j_C = \<lparr>client_clmain = Some 1, client_nationality = Some ''Namibian'',
                C_record_marked_deleted = Some 0\<rparr>,
         j_BU = None, j_BUT = None, j_D = None\<rparr>]
   \<and> decode_minute 66506400 = Inr (2023, 6, 15)
   \<and> map derive (projr (query (example_database [example_booking ''B1'' 66506400 (Some 7)])))
     = [example_loaded ''B1'' (2023, 6, 15) (2023, 6, 17) (2023, 6, 14)]"
  by code_simp

end
